theory Spec2Isabelle
  imports Main "HOL-Library.Word"
begin

section \<open>JavaScript values used by the validator worker\<close>

text \<open>
  The module \<^verbatim>\<open>services/validatorWorker/lib/index.js\<close> holds both sides of a merge:
  one with \<^verbatim>\<open>getBalancesAfterFeesTree\<close> and \<^verbatim>\<open>toBNStringMap\<close>, one with
  \<^verbatim>\<open>invalidNewState\<close>. Both are modelled, with the channel routes
  \<^verbatim>\<open>retrieveLastApproved\<close> and \<^verbatim>\<open>postValidatorMessages\<close>.

  A plain JavaScript object is an association list in the object's own enumeration order
  (the order of \<^verbatim>\<open>Object.keys\<close>, integer-like keys first); a well-formed object
  has no key twice. Every function below builds its result by assigning the keys of its
  argument, in that argument's enumeration order, to a fresh object, and adds only keys
  that are not integer-like, so the list order is the enumeration order of the result as
  well.
\<close>

type_synonym 'v obj = "(string \<times> 'v) list"

definition wf_obj :: "'v obj \<Rightarrow> bool" where
  "wf_obj ob = distinct (map fst ob)"

text \<open>\<^verbatim>\<open>Object.keys(o)\<close> and the property read \<^verbatim>\<open>o[k]\<close>
  (\<open>None\<close> is \<^verbatim>\<open>undefined\<close>).\<close>

definition keys :: "'v obj \<Rightarrow> string list" where
  "keys ob = map fst ob"

definition get_prop :: "'v obj \<Rightarrow> string \<Rightarrow> 'v option" where
  "get_prop ob k = map_of ob k"

text \<open>The assignment \<^verbatim>\<open>o[k] = v\<close>: an existing property keeps its place and
  takes the new value, a new one is added last.\<close>

fun set_prop :: "'v obj \<Rightarrow> string \<Rightarrow> 'v \<Rightarrow> 'v obj" where
  "set_prop [] k v = [(k, v)]"
| "set_prop ((k', v') # ob) k v =
     (if k' = k then (k, v) # ob else (k', v') # set_prop ob k v)"

text \<open>The object spread \<^verbatim>\<open>{ ...o }\<close> copies the own properties of \<open>o\<close>
  in order into a fresh object.\<close>

definition spread :: "'v obj \<Rightarrow> 'v obj" where
  "spread ob = fold (\<lambda>(k, v) acc. set_prop acc k v) ob []"

subsection \<open>Big integers (bn.js)\<close>

text \<open>
  A \<^verbatim>\<open>BN\<close> is an unbounded integer. A balance is held either as a base-10
  string (the wire form) or as a \<^verbatim>\<open>BN\<close> (the internal form).
\<close>

datatype amount = Str string | BN int

text \<open>
  \<^verbatim>\<open>new BN(s, 10)\<close> on a string: an optional leading minus sign, then the digits,
  most significant first, each character contributing its code minus 48. The model is
  exact on strings of digits with an optional minus sign. bn.js 4 does not validate its
  input: it drops white space first and computes with whatever other characters it finds;
  such strings are outside the model.
\<close>

definition digit_val :: "char \<Rightarrow> int" where
  "digit_val c = int (of_char c) - 48"

definition parseBase :: "string \<Rightarrow> int" where
  "parseBase s = foldl (\<lambda>r c. r * 10 + digit_val c) 0 s"

fun bn_of_string :: "string \<Rightarrow> int" where
  "bn_of_string [] = 0"
| "bn_of_string (c # s) =
     (if c = CHR ''-'' then - parseBase s else parseBase (c # s))"

text \<open>\<^verbatim>\<open>new BN(x, 10)\<close>: a \<^verbatim>\<open>BN\<close> is returned as it is, a string is
  parsed.\<close>

fun newBN :: "amount \<Rightarrow> int" where
  "newBN (BN n) = n"
| "newBN (Str s) = bn_of_string s"

text \<open>\<^verbatim>\<open>new BN(undefined, 10)\<close> is zero (the constructor reads
  \<^verbatim>\<open>number || 0\<close>).\<close>

fun newBN_prop :: "amount option \<Rightarrow> int" where
  "newBN_prop None = 0"
| "newBN_prop (Some a) = newBN a"

text \<open>\<^verbatim>\<open>bn.toString(10)\<close>: the canonical decimal numeral.\<close>

definition digit_char :: "nat \<Rightarrow> char" where
  "digit_char d = char_of (48 + d)"

function string_of_nat :: "nat \<Rightarrow> string" where
  "string_of_nat n =
     (if n < 10 then [digit_char n] else string_of_nat (n div 10) @ [digit_char (n mod 10)])"
  by pat_completeness auto
termination
  by (relation "measure (\<lambda>n. n)") auto

declare string_of_nat.simps [simp del]

definition bn_toString :: "int \<Rightarrow> string" where
  "bn_toString n = (if n < 0 then CHR ''-'' # string_of_nat (nat (- n)) else string_of_nat (nat n))"

text \<open>\<^verbatim>\<open>x.toString(10)\<close> on a balance: a string is its own string form.\<close>

fun toString10 :: "amount \<Rightarrow> string" where
  "toString10 (BN n) = bn_toString n"
| "toString10 (Str s) = s"

text \<open>
  \<^verbatim>\<open>a.div(b)\<close> of bn.js divides the magnitudes and gives the quotient the sign of
  the product (truncation towards zero); it asserts that the divisor is not zero.
\<close>

datatype error =
    AssertionError string
  | TypeError
  | BNAssertionFailed

definition trunc_div :: "int \<Rightarrow> int \<Rightarrow> int" where
  "trunc_div a b = sgn a * sgn b * (\<bar>a\<bar> div \<bar>b\<bar>)"

definition bn_div :: "int \<Rightarrow> int \<Rightarrow> error + int" where
  "bn_div a b = (if b = 0 then Inl BNAssertionFailed else Inr (trunc_div a b))"

subsection \<open>Arguments of unknown shape\<close>

text \<open>
  An argument that the code tests with \<^verbatim>\<open>typeof\<close> before use. A number stands for
  an integer-valued JavaScript number; its value is never inspected.
\<close>

datatype jsval =
    JUndefined
  | JNull
  | JBoolean bool
  | JNumber int
  | JString string
  | JObject "amount obj"

text \<open>\<^verbatim>\<open>raw && typeof(raw) === 'object'\<close>\<close>

fun is_valid_object :: "jsval \<Rightarrow> bool" where
  "is_valid_object (JObject ob) = True"
| "is_valid_object _ = False"

text \<open>\<^verbatim>\<open>Object.entries(raw)\<close>: it throws on \<^verbatim>\<open>undefined\<close> and
  \<^verbatim>\<open>null\<close>, a boolean or a number has no own enumerable property, a string has its
  characters under their indices.\<close>

fun entries :: "jsval \<Rightarrow> error + amount obj" where
  "entries JUndefined = Inl TypeError"
| "entries JNull = Inl TypeError"
| "entries (JBoolean b) = Inr []"
| "entries (JNumber n) = Inr []"
| "entries (JString s) = Inr (map (\<lambda>i. (string_of_nat i, Str [s ! i])) [0..<length s])"
| "entries (JObject ob) = Inr ob"

section \<open>The channel\<close>

text \<open>The \<^verbatim>\<open>id\<close> of a validator is \<open>vid\<close>, the \<^verbatim>\<open>id\<close> of a channel
  is \<open>cid\<close>.\<close>

record validator =
  vid :: string
  fee :: amount

record channelSpec =
  validators :: "validator list"

record channel =
  cid :: string
  depositAmount :: amount
  spec :: channelSpec

text \<open>\<^verbatim>\<open>channel.spec.validators[i].fee\<close>: reading a property of
  \<^verbatim>\<open>undefined\<close> throws.\<close>

definition validator_at :: "channel \<Rightarrow> nat \<Rightarrow> error + validator" where
  "validator_at ch i =
     (if i < length (validators (spec ch)) then Inr (validators (spec ch) ! i)
      else Inl TypeError)"

section \<open>Balance conversion: toBNMap and toBNStringMap\<close>

definition toBNMap :: "jsval \<Rightarrow> error + amount obj" where
  "toBNMap raw =
     (if \<not> is_valid_object raw then Inl (AssertionError ''raw map is a valid object'')
      else case entries raw of
        Inl e \<Rightarrow> Inl e
      | Inr es \<Rightarrow> Inr (fold (\<lambda>(acc, bal) balances. set_prop balances acc (BN (newBN bal))) es []))"


section \<open>Fee distribution: getBalancesAfterFeesTree\<close>

definition getValidatorFee :: "int \<Rightarrow> int \<Rightarrow> int \<Rightarrow> error + int" where
  "getValidatorFee publisherBalance totalValidatorFee depositAmount' =
     (let numerator = depositAmount' - totalValidatorFee
      in bn_div (publisherBalance * numerator) depositAmount')"

text \<open>
  The body of the \<^verbatim>\<open>forEach\<close> over \<^verbatim>\<open>Object.keys(balances)\<close>, with the two
  variables it updates (\<^verbatim>\<open>currentValidatorFee\<close>, \<^verbatim>\<open>balancesAfterFees\<close>) as
  the state; a throw ends the loop.
\<close>

fun feesLoop ::
  "amount obj \<Rightarrow> int \<Rightarrow> amount \<Rightarrow> string list \<Rightarrow> int \<times> amount obj \<Rightarrow> error + int \<times> amount obj"
where
  "feesLoop balances totalValidatorFee dep [] st = Inr st"
| "feesLoop balances totalValidatorFee dep (publisher # ps) (currentValidatorFee, balancesAfterFees) =
     (let publisherBalance = newBN_prop (get_prop balances publisher) in
      case getValidatorFee publisherBalance totalValidatorFee (newBN dep) of
        Inl e \<Rightarrow> Inl e
      | Inr validatorFee \<Rightarrow>
          (let publisherBalance' = publisherBalance - validatorFee in
           if publisherBalance' < 0
           then Inl (AssertionError ''publisher balance should not be negative'')
           else feesLoop balances totalValidatorFee dep ps
                  (currentValidatorFee + validatorFee,
                   set_prop balancesAfterFees publisher (BN publisherBalance'))))"

definition getBalancesAfterFeesTree :: "jsval \<Rightarrow> channel \<Rightarrow> error + amount obj" where
  "getBalancesAfterFeesTree balances ch =
     (case validator_at ch 0 of Inl e \<Rightarrow> Inl e | Inr leader \<Rightarrow>
     (case validator_at ch 1 of Inl e \<Rightarrow> Inl e | Inr follower \<Rightarrow>
      (let leaderFee = newBN (fee leader);
           followerFee = newBN (fee follower);
           totalValidatorFee = leaderFee + followerFee
       in (case entries balances of Inl e \<Rightarrow> Inl e | Inr es \<Rightarrow>
          (case feesLoop es totalValidatorFee (depositAmount ch) (keys es) (0, []) of
             Inl e \<Rightarrow> Inl e
           | Inr (currentValidatorFee, balancesAfterFees) \<Rightarrow>
               Inr (set_prop (spread balancesAfterFees) ''validator'' (BN currentValidatorFee)))))))"

section \<open>The state root: getStateRootHash and isValidRootHash\<close>

text \<open>
  A \<^verbatim>\<open>Buffer\<close> is a list of bytes. \<^verbatim>\<open>Buffer.from(s)\<close> takes the bytes of
  the string, \<^verbatim>\<open>buf.toString('hex')\<close> writes two lower-case hexadecimal digits for
  each byte.
\<close>

type_synonym buffer = "8 word list"

definition Buffer_from :: "string \<Rightarrow> buffer" where
  "Buffer_from s = map (\<lambda>c. of_nat (of_char c)) s"

definition hexdigit :: "nat \<Rightarrow> char" where
  "hexdigit n = ''0123456789abcdef'' ! n"

definition toString_hex :: "buffer \<Rightarrow> string" where
  "toString_hex buf = concat (map (\<lambda>b. [hexdigit (unat b div 16), hexdigit (unat b mod 16)]) buf)"

text \<open>
  The adapter is supplied by the caller. The code uses four of its members:
  \<^verbatim>\<open>getBalanceLeaf(acc, bal)\<close>, the constructor \<^verbatim>\<open>MerkleTree(elems)\<close>, the
  tree's \<^verbatim>\<open>getRoot()\<close> and \<^verbatim>\<open>getSignableStateRoot(id, root)\<close>.
\<close>

record 't adapter =
  getBalanceLeaf :: "string \<Rightarrow> amount option \<Rightarrow> buffer"
  MerkleTree :: "buffer list \<Rightarrow> 't"
  getRoot :: "'t \<Rightarrow> buffer"
  getSignableStateRoot :: "buffer \<Rightarrow> buffer \<Rightarrow> buffer"

definition getStateRootHash :: "channel \<Rightarrow> amount obj \<Rightarrow> 't adapter \<Rightarrow> string" where
  "getStateRootHash ch balances ad =
     (let elems = map (\<lambda>acc. getBalanceLeaf ad acc (get_prop balances acc)) (keys balances);
          tree = MerkleTree ad elems;
          balanceRoot = getRoot ad tree;
          stateRoot = toString_hex (getSignableStateRoot ad (Buffer_from (cid ch)) balanceRoot)
      in stateRoot)"

text \<open>The second argument of the source is the object
  \<^verbatim>\<open>{ channel, balancesAfterFees, adapter }\<close>; its three members are passed here one
  by one.\<close>

definition isValidRootHash :: "string \<Rightarrow> channel \<Rightarrow> amount obj \<Rightarrow> 't adapter \<Rightarrow> bool" where
  "isValidRootHash leaderRootHash ch balancesAfterFees ad =
     (getStateRootHash ch balancesAfterFees ad = leaderRootHash)"

section \<open>Validator messages\<close>

text \<open>A validator message is a plain object; its members are strings, or a balance
  mapping under \<^verbatim>\<open>balances\<close>.\<close>

datatype msgval = FString string | FBalances "amount obj"

type_synonym message = "msgval obj"

text \<open>
  \<^verbatim>\<open>persist\<close> comes from the propagation module and is a parameter here; the object
  literal \<^verbatim>\<open>{ ...newMsg, type: 'InvalidNewState', reason }\<close> copies
  \<^verbatim>\<open>newMsg\<close>, then assigns \<^verbatim>\<open>type\<close>, then \<^verbatim>\<open>reason\<close>.
\<close>

definition invalidNewState ::
  "('t adapter \<Rightarrow> channel \<Rightarrow> message \<Rightarrow> 'r) \<Rightarrow> channel \<Rightarrow> 't adapter \<Rightarrow> msgval \<Rightarrow> message \<Rightarrow> 'r"
where
  "invalidNewState persist ch ad reason newMsg =
     persist ad ch
       (set_prop (set_prop (spread newMsg) ''type'' (FString ''InvalidNewState'')) ''reason'' reason)"

section \<open>The message collection: retrieveLastApproved and postValidatorMessages\<close>

text \<open>
  A document of the \<^verbatim>\<open>validatorMessages\<close> collection. The projection
  \<^verbatim>\<open>VALIDATOR_MSGS_PROJ\<close> drops \<^verbatim>\<open>_id\<close> and \<^verbatim>\<open>channelId\<close>: what a
  query returns is the record without its \<^verbatim>\<open>channelId\<close>. \<^verbatim>\<open>received\<close> is
  a date, held as its milliseconds; the member \<^verbatim>\<open>from\<close> is \<open>from'\<close>. The
  collection is the list of its documents in natural order.
\<close>

record validatorMessage =
  from' :: string
  msg :: message
  received :: int

record validatorMessageDoc = validatorMessage +
  channelId :: string







text \<open>
  \<^verbatim>\<open>postValidatorMessages\<close>: the request carries the channel, the session's
  \<^verbatim>\<open>uid\<close> and the messages of the body; \<^verbatim>\<open>Date.now()\<close> is the argument
  \<open>startTime\<close>. The result is the response and the collection after the inserts.
\<close>

datatype response = SendStatus nat | SendSuccess

definition postValidatorMessages ::
  "validatorMessageDoc list \<Rightarrow> int \<Rightarrow> channel \<Rightarrow> string \<Rightarrow> message list
     \<Rightarrow> response \<times> validatorMessageDoc list"
where
  "postValidatorMessages validatorMsgCol startTime ch uid messages =
     (if find (\<lambda>v. vid v = uid) (validators (spec ch)) = None
      then (SendStatus 401, validatorMsgCol)
      else
        (let toInsert =
               map (\<lambda>(idx, m).
                      \<lparr>from' = uid, msg = m, received = startTime + int idx, channelId = cid ch\<rparr>)
                   (enumerate 0 messages)
         in (SendSuccess, validatorMsgCol @ toInsert)))"

section \<open>Notions used in the statements\<close>

text \<open>
  The total fee of a channel (\<^verbatim>\<open>leaderFee.add(followerFee)\<close>), the term that
  \<^verbatim>\<open>getValidatorFee\<close> computes for one balance, the balance left after it is
  subtracted, and the sum of the values of a balance mapping.
\<close>

definition totalFee :: "channel \<Rightarrow> int" where
  "totalFee ch = newBN (fee (validators (spec ch) ! 0)) + newBN (fee (validators (spec ch) ! 1))"

definition feeTerm :: "channel \<Rightarrow> amount \<Rightarrow> int" where
  "feeTerm ch bal =
     trunc_div (newBN bal * (newBN (depositAmount ch) - totalFee ch)) (newBN (depositAmount ch))"

definition postFee :: "channel \<Rightarrow> amount \<Rightarrow> int" where
  "postFee ch bal = newBN bal - feeTerm ch bal"

definition sum_values :: "amount obj \<Rightarrow> int" where
  "sum_values ob = (\<Sum>(k, v)\<leftarrow>ob. newBN v)"

text \<open>Two channels for the examples: the scenario of the specification (deposit 1000,
  fees 10 and 5), and a channel whose fees exceed its deposit.\<close>

definition exampleChannel :: channel where
  "exampleChannel =
     \<lparr>cid = ''c1'', depositAmount = Str ''1000'',
      spec = \<lparr>validators = [\<lparr>vid = ''L'', fee = Str ''10''\<rparr>, \<lparr>vid = ''F'', fee = Str ''5''\<rparr>]\<rparr>\<rparr>"

definition overFeeChannel :: channel where
  "overFeeChannel =
     \<lparr>cid = ''c2'', depositAmount = Str ''10'',
      spec = \<lparr>validators = [\<lparr>vid = ''L'', fee = Str ''10''\<rparr>, \<lparr>vid = ''F'', fee = Str ''5''\<rparr>]\<rparr>\<rparr>"





text \<open>An adapter for the examples: the tree holds the distinct leaves, its root is the
  sum of their bytes.\<close>

definition exampleAdapter :: "buffer list adapter" where
  "exampleAdapter =
     \<lparr>getBalanceLeaf = (\<lambda>acc bal. Buffer_from acc @ Buffer_from (case bal of None \<Rightarrow> [] | Some a \<Rightarrow> toString10 a)),
      MerkleTree = remdups,
      getRoot = (\<lambda>t. [sum_list (map sum_list t)]),
      getSignableStateRoot = (\<lambda>idb root. idb @ root)\<rparr>"

text \<open>Messages and a collection for the examples.\<close>

definition exampleNewState :: message where
  "exampleNewState =
     [(''type'', FString ''NewState''), (''stateRoot'', FString ''6331''),
      (''signature'', FString ''sig''), (''balances'', FBalances [(''A'', Str ''100'')])]"

definition exampleApproveState :: message where
  "exampleApproveState =
     [(''type'', FString ''ApproveState''), (''stateRoot'', FString ''6331''),
      (''signature'', FString ''sig2'')]"


section \<open>Properties: objects\<close>

lemma set_prop_fresh: "k \<notin> fst ` set ob \<Longrightarrow> set_prop ob k v = ob @ [(k, v)]"
  by (induction ob) auto

lemma fold_set_prop:
  "distinct (map fst acc @ map fst es) \<Longrightarrow>
   fold (\<lambda>(k, v) a. set_prop a k (g v)) es acc = acc @ map (\<lambda>(k, v). (k, g v)) es"
proof (induction es arbitrary: acc)
  case Nil
  then show ?case by simp
next
  case (Cons e es)
  obtain k v where e: "e = (k, v)" by (cases e)
  from Cons.prems have fresh: "k \<notin> fst ` set acc" by (auto simp: e)
  from Cons.prems have d: "distinct (map fst (acc @ [(k, g v)]) @ map fst es)" by (auto simp: e)
  show ?case using Cons.IH [OF d] by (simp add: e set_prop_fresh [OF fresh])
qed

lemma spread_wf: "wf_obj ob \<Longrightarrow> spread ob = ob"
  using fold_set_prop [of "[]" ob "\<lambda>v. v"] by (simp add: spread_def wf_obj_def)

lemma get_prop_wf: "wf_obj ob \<Longrightarrow> (k, v) \<in> set ob \<Longrightarrow> get_prop ob k = Some v"
  by (simp add: wf_obj_def get_prop_def)

lemma get_prop_spread: "wf_obj ob \<Longrightarrow> get_prop (spread ob) k = get_prop ob k"
  by (simp add: spread_wf)

lemma get_prop_set_prop:
  "get_prop (set_prop ob k v) k' = (if k' = k then Some v else get_prop ob k')"
  by (induction ob) (auto simp: get_prop_def)

lemma set_set_prop: "set (set_prop ob k v) \<subseteq> insert (k, v) (set ob)"
  by (induction ob) (auto split: if_splits)


section \<open>Properties: fee distribution\<close>

lemma feesLoop_eq:
  assumes d: "newBN dep \<noteq> 0"
  shows "distinct (map fst acc @ map fst ps) \<Longrightarrow>
     feesLoop es tf dep (map fst ps) (cur, acc) =
       (if \<exists>p \<in> set ps. newBN_prop (get_prop es (fst p)) - trunc_div (newBN_prop (get_prop es (fst p)) * (newBN dep - tf)) (newBN dep) < 0
        then Inl (AssertionError ''publisher balance should not be negative'')
        else Inr (cur + (\<Sum>p\<leftarrow>ps. trunc_div (newBN_prop (get_prop es (fst p)) * (newBN dep - tf)) (newBN dep)),
                  acc @ map (\<lambda>p. (fst p, BN (newBN_prop (get_prop es (fst p)) - trunc_div (newBN_prop (get_prop es (fst p)) * (newBN dep - tf)) (newBN dep)))) ps))"
proof (induction ps arbitrary: cur acc)
  case Nil
  then show ?case by simp
next
  case (Cons p ps)
  from Cons.prems have fresh: "fst p \<notin> fst ` set acc" by auto
  let ?post = "newBN_prop (get_prop es (fst p)) - trunc_div (newBN_prop (get_prop es (fst p)) * (newBN dep - tf)) (newBN dep)"
  from Cons.prems have dd: "distinct (map fst (acc @ [(fst p, BN ?post)]) @ map fst ps)" by auto
  show ?case
    using d Cons.IH [OF dd]
    by (simp add: getValidatorFee_def bn_div_def Let_def set_prop_fresh [OF fresh] add.assoc)
qed

lemma gbaft_eq:
  assumes wf: "wf_obj raw" and two: "2 \<le> length (validators (spec ch))"
    and d: "newBN (depositAmount ch) \<noteq> 0"
  shows "getBalancesAfterFeesTree (JObject raw) ch =
     (if \<exists>(k, v) \<in> set raw. postFee ch v < 0
      then Inl (AssertionError ''publisher balance should not be negative'')
      else Inr (set_prop (map (\<lambda>(k, v). (k, BN (postFee ch v))) raw) ''validator''
                  (BN (\<Sum>(k, v)\<leftarrow>raw. feeTerm ch v))))"
proof -
  have g: "newBN_prop (get_prop raw (fst p)) = newBN (snd p)" if "p \<in> set raw" for p
    using get_prop_wf [OF wf, of "fst p" "snd p"] that by simp
  have dist: "distinct (map fst ([] :: amount obj) @ map fst raw)"
    using wf by (simp add: wf_obj_def)
  have wf': "wf_obj (map (\<lambda>(k, v). (k, BN (postFee ch v))) raw)"
    using wf by (simp add: wf_obj_def case_prod_unfold comp_def)
  have m: "map (\<lambda>p. (fst p, BN (newBN_prop (get_prop raw (fst p)) - trunc_div (newBN_prop (get_prop raw (fst p)) * (newBN (depositAmount ch) - totalFee ch)) (newBN (depositAmount ch))))) raw
      = map (\<lambda>(k, v). (k, BN (postFee ch v))) raw"
    by (rule map_cong) (auto simp: g postFee_def feeTerm_def)
  have s: "(\<Sum>p\<leftarrow>raw. trunc_div (newBN_prop (get_prop raw (fst p)) * (newBN (depositAmount ch) - totalFee ch)) (newBN (depositAmount ch)))
      = (\<Sum>(k, v)\<leftarrow>raw. feeTerm ch v)"
    by (rule arg_cong [where f = sum_list], rule map_cong) (auto simp: g feeTerm_def)
  have e: "(\<exists>p \<in> set raw. newBN_prop (get_prop raw (fst p)) - trunc_div (newBN_prop (get_prop raw (fst p)) * (newBN (depositAmount ch) - totalFee ch)) (newBN (depositAmount ch)) < 0)
      = (\<exists>(k, v) \<in> set raw. postFee ch v < 0)"
    by (rule bex_cong [OF refl]) (simp add: g postFee_def feeTerm_def case_prod_unfold)
  have loop: "feesLoop raw (totalFee ch) (depositAmount ch) (keys raw) (0, []) =
      (if \<exists>(k, v) \<in> set raw. postFee ch v < 0
       then Inl (AssertionError ''publisher balance should not be negative'')
       else Inr ((\<Sum>(k, v)\<leftarrow>raw. feeTerm ch v), map (\<lambda>(k, v). (k, BN (postFee ch v))) raw))"
    unfolding keys_def feesLoop_eq [OF d dist] e m s by simp
  have v0: "validator_at ch 0 = Inr (validators (spec ch) ! 0)"
    and v1: "validator_at ch 1 = Inr (validators (spec ch) ! 1)"
    using two by (auto simp: validator_at_def)
  show ?thesis
    unfolding getBalancesAfterFeesTree_def v0 v1
    using loop by (simp add: totalFee_def spread_wf [OF wf'])
qed

lemma gbaft_zero_deposit:
  assumes two: "2 \<le> length (validators (spec ch))" and d: "newBN (depositAmount ch) = 0"
  shows "getBalancesAfterFeesTree (JObject raw) ch =
     (if raw = [] then Inr [(''validator'', BN 0)] else Inl BNAssertionFailed)"
proof -
  have v0: "validator_at ch 0 = Inr (validators (spec ch) ! 0)"
    and v1: "validator_at ch 1 = Inr (validators (spec ch) ! 1)"
    using two by (auto simp: validator_at_def)
  show ?thesis
    unfolding getBalancesAfterFeesTree_def v0 v1
    using d by (cases raw) (auto simp: keys_def spread_def getValidatorFee_def bn_div_def)
qed

lemma gbaft_few_validators:
  assumes "length (validators (spec ch)) < 2"
  shows "getBalancesAfterFeesTree raw ch = Inl TypeError"
  using assms by (auto simp: getBalancesAfterFeesTree_def validator_at_def split: sum.splits)

lemma gbaft_no_props:
  assumes "2 \<le> length (validators (spec ch))" and "entries raw = Inr []"
  shows "getBalancesAfterFeesTree raw ch = Inr [(''validator'', BN 0)]"
proof -
  have v0: "validator_at ch 0 = Inr (validators (spec ch) ! 0)"
    and v1: "validator_at ch 1 = Inr (validators (spec ch) ! 1)"
    using assms(1) by (auto simp: validator_at_def)
  show ?thesis
    unfolding getBalancesAfterFeesTree_def v0 v1
    using assms(2) by (simp add: keys_def spread_def)
qed

lemma gbaft_nullish:
  assumes "entries raw = Inl e"
  shows "\<exists>e'. getBalancesAfterFeesTree raw ch = Inl e'"
  using assms by (auto simp: getBalancesAfterFeesTree_def split: sum.splits)

lemma gbaft_result:
  assumes wf: "wf_obj raw" and r: "getBalancesAfterFeesTree (JObject raw) ch = Inr res"
  shows "res = set_prop (map (\<lambda>(k, v). (k, BN (postFee ch v))) raw) ''validator''
                  (BN (\<Sum>(k, v)\<leftarrow>raw. feeTerm ch v))
         \<and> \<not> (\<exists>(k, v) \<in> set raw. postFee ch v < 0)"
proof (cases "length (validators (spec ch)) < 2")
  case True
  then show ?thesis using r by (simp add: gbaft_few_validators)
next
  case False
  then have two: "2 \<le> length (validators (spec ch))" by simp
  show ?thesis
  proof (cases "newBN (depositAmount ch) = 0")
    case True
    then show ?thesis
      using r by (auto simp: gbaft_zero_deposit [OF two True] split: if_splits)
  next
    case False
    show ?thesis using r by (simp add: gbaft_eq [OF wf two False] split: if_splits)
  qed
qed




lemma trunc_div_nonneg: "0 \<le> a \<Longrightarrow> 0 < b \<Longrightarrow> trunc_div a b = a div b"
  by (cases "a = 0") (simp_all add: trunc_div_def)



lemma feeTerm_nonneg:
  assumes b: "0 \<le> newBN v" and d: "0 < newBN (depositAmount ch)"
    and f: "totalFee ch \<le> newBN (depositAmount ch)"
  shows "0 \<le> feeTerm ch v"
proof -
  have "0 \<le> newBN v * (newBN (depositAmount ch) - totalFee ch)" using b f by simp
  then show ?thesis using d by (simp add: feeTerm_def trunc_div_nonneg [OF _ d] pos_imp_zdiv_nonneg_iff)
qed


lemmas eval_defs =
  getBalancesAfterFeesTree_def validator_at_def keys_def get_prop_def getValidatorFee_def
  bn_div_def trunc_div_def spread_def parseBase_def digit_val_def exampleChannel_def
  overFeeChannel_def wf_obj_def sum_values_def totalFee_def postFee_def feeTerm_def

lemma run_AB:
  "getBalancesAfterFeesTree (JObject [(''A'', Str ''100''), (''B'', Str ''200'')]) exampleChannel
     = Inr [(''A'', BN 2), (''B'', BN 3), (''validator'', BN 295)]"
  by (simp add: eval_defs)


lemma run_over_fee:
  "getBalancesAfterFeesTree (JObject [(''A'', Str ''100'')]) overFeeChannel
     = Inr [(''A'', BN 150), (''validator'', BN (- 50))]"
  by (simp add: eval_defs)





text \<open>
  C2. Every publisher entry of a returned mapping (every key other than
  \<^verbatim>\<open>validator\<close>) is non-negative, and the computation throws the assertion error
  when a publisher's post-fee balance is negative. The \<^verbatim>\<open>validator\<close> entry is not
  checked by the code: it is non-negative when the balances are non-negative and the total fee
  lies between zero and the positive deposit.
\<close>

theorem publisher_balances_nonneg:
  assumes "wf_obj raw"
  shows "(\<forall>res. getBalancesAfterFeesTree (JObject raw) ch = Inr res \<longrightarrow>
            (\<forall>(k, v) \<in> set res. k \<noteq> ''validator'' \<longrightarrow> 0 \<le> newBN v))
       \<and> ((\<exists>(k, v) \<in> set raw. postFee ch v < 0) \<longrightarrow>
            (\<exists>e. getBalancesAfterFeesTree (JObject raw) ch = Inl e))
       \<and> (2 \<le> length (validators (spec ch)) \<and> newBN (depositAmount ch) \<noteq> 0
            \<and> (\<exists>(k, v) \<in> set raw. postFee ch v < 0) \<longrightarrow>
          getBalancesAfterFeesTree (JObject raw) ch
            = Inl (AssertionError ''publisher balance should not be negative''))
       \<and> (\<forall>res. getBalancesAfterFeesTree (JObject raw) ch = Inr res
            \<and> 0 < newBN (depositAmount ch) \<and> 0 \<le> totalFee ch
            \<and> totalFee ch \<le> newBN (depositAmount ch)
            \<and> (\<forall>(k, v) \<in> set raw. 0 \<le> newBN v) \<longrightarrow>
          (\<exists>n. get_prop res ''validator'' = Some (BN n) \<and> 0 \<le> n))"
proof (intro conjI allI impI)
  fix res
  assume r: "getBalancesAfterFeesTree (JObject raw) ch = Inr res"
  note g = gbaft_result [OF assms r]
  show "\<forall>(k, v) \<in> set res. k \<noteq> ''validator'' \<longrightarrow> 0 \<le> newBN v"
  proof (clarify)
    fix k v
    assume kv: "(k, v) \<in> set res" and nv: "k \<noteq> ''validator''"
    from kv g have "(k, v) \<in> set (map (\<lambda>(k, v). (k, BN (postFee ch v))) raw)"
      using set_set_prop [of "map (\<lambda>(k, v). (k, BN (postFee ch v))) raw" "''validator''"] nv
      by auto
    then obtain v0 where "(k, v0) \<in> set raw" and v: "v = BN (postFee ch v0)" by auto
    with g have "\<not> postFee ch v0 < 0" by blast
    with v show "0 \<le> newBN v" by simp
  qed
next
  assume n: "\<exists>(k, v) \<in> set raw. postFee ch v < 0"
  show "\<exists>e. getBalancesAfterFeesTree (JObject raw) ch = Inl e"
  proof (cases "getBalancesAfterFeesTree (JObject raw) ch")
    case (Inl e)
    then show ?thesis by blast
  next
    case (Inr res)
    from gbaft_result [OF assms Inr] n show ?thesis by blast
  qed
next
  assume "2 \<le> length (validators (spec ch)) \<and> newBN (depositAmount ch) \<noteq> 0
            \<and> (\<exists>(k, v) \<in> set raw. postFee ch v < 0)"
  then show "getBalancesAfterFeesTree (JObject raw) ch
            = Inl (AssertionError ''publisher balance should not be negative'')"
    by (simp add: gbaft_eq [OF assms])
next
  fix res
  assume a: "getBalancesAfterFeesTree (JObject raw) ch = Inr res
            \<and> 0 < newBN (depositAmount ch) \<and> 0 \<le> totalFee ch
            \<and> totalFee ch \<le> newBN (depositAmount ch)
            \<and> (\<forall>(k, v) \<in> set raw. 0 \<le> newBN v)"
  then have r: "getBalancesAfterFeesTree (JObject raw) ch = Inr res" by simp
  note g = gbaft_result [OF assms r]
  have "0 \<le> feeTerm ch v" if "(k, v) \<in> set raw" for k v
    using a that feeTerm_nonneg [of v ch] by blast
  then have "0 \<le> (\<Sum>(k, v)\<leftarrow>raw. feeTerm ch v)"
    by (intro sum_list_nonneg) auto
  with g show "\<exists>n. get_prop res ''validator'' = Some (BN n) \<and> 0 \<le> n"
    by (simp add: get_prop_set_prop)
qed

theorem publisher_balances_nonneg_witness:
  "wf_obj [(''A'', Str ''100''), (''B'', Str ''200'')]
   \<and> getBalancesAfterFeesTree (JObject [(''A'', Str ''100''), (''B'', Str ''200'')]) exampleChannel
       = Inr [(''A'', BN 2), (''B'', BN 3), (''validator'', BN 295)]
   \<and> 0 \<le> newBN (BN 2) \<and> 0 \<le> newBN (BN 3)
   \<and> 0 < newBN (depositAmount exampleChannel) \<and> 0 \<le> totalFee exampleChannel
   \<and> totalFee exampleChannel \<le> newBN (depositAmount exampleChannel)
   \<and> get_prop [(''A'', BN 2), (''B'', BN 3), (''validator'', BN 295)] ''validator'' = Some (BN 295)
   \<and> wf_obj [(''A'', Str ''-5'')] \<and> postFee exampleChannel (Str ''-5'') < 0
   \<and> getBalancesAfterFeesTree (JObject [(''A'', Str ''-5'')]) exampleChannel
       = Inl (AssertionError ''publisher balance should not be negative'')"
proof -
  let ?raw = "[(''A'', Str ''100''), (''B'', Str ''200'')]"
  have wf: "wf_obj ?raw" by (simp add: wf_obj_def)
  have wf2: "wf_obj [(''A'', Str ''-5'')]" by (simp add: wf_obj_def)
  have two: "2 \<le> length (validators (spec exampleChannel))" by (simp add: exampleChannel_def)
  have d: "newBN (depositAmount exampleChannel) \<noteq> 0"
    by (simp add: exampleChannel_def parseBase_def digit_val_def)
  have c: "0 < newBN (depositAmount exampleChannel) \<and> 0 \<le> totalFee exampleChannel
      \<and> totalFee exampleChannel \<le> newBN (depositAmount exampleChannel)"
    by (simp add: eval_defs)
  have b: "\<forall>(k, v) \<in> set ?raw. 0 \<le> newBN v" by (simp add: parseBase_def digit_val_def)
  have neg: "postFee exampleChannel (Str ''-5'') < 0" by (simp add: eval_defs)
  note t = publisher_balances_nonneg [OF wf, of exampleChannel]
  have nn: "\<forall>(k, v) \<in> set [(''A'', BN 2), (''B'', BN 3), (''validator'', BN 295)].
              k \<noteq> ''validator'' \<longrightarrow> 0 \<le> newBN v"
    using t run_AB by blast
  have "\<exists>n. get_prop [(''A'', BN 2), (''B'', BN 3), (''validator'', BN 295)] ''validator''
               = Some (BN n) \<and> 0 \<le> n"
    using t run_AB c b by blast
  then have v: "get_prop [(''A'', BN 2), (''B'', BN 3), (''validator'', BN 295)] ''validator''
               = Some (BN 295)"
    by (simp add: get_prop_def)
  have thrown: "getBalancesAfterFeesTree (JObject [(''A'', Str ''-5'')]) exampleChannel
       = Inl (AssertionError ''publisher balance should not be negative'')"
    using publisher_balances_nonneg [OF wf2, of exampleChannel] two d neg by simp
  from nn have "0 \<le> newBN (BN 2) \<and> 0 \<le> newBN (BN 3)" by simp
  with wf wf2 run_AB c v neg thrown show ?thesis by blast
qed

text \<open>Fees above the deposit: the \<^verbatim>\<open>validator\<close> entry of the returned mapping is
  negative.\<close>

theorem validator_entry_negative_counterexample:
  "getBalancesAfterFeesTree (JObject [(''A'', Str ''100'')]) overFeeChannel
     = Inr [(''A'', BN 150), (''validator'', BN (- 50))]
   \<and> get_prop [(''A'', BN 150), (''validator'', BN (- 50))] ''validator'' = Some (BN (- 50))
   \<and> \<not> 0 \<le> newBN (BN (- 50))"
  by (simp add: run_over_fee get_prop_def)



section \<open>Properties: the shape of the raw balances\<close>



text \<open>
  C3. The shape of the raw balances is checked by \<^verbatim>\<open>toBNMap\<close>, which throws its
  assertion error exactly when the argument is not an object;
  \<^verbatim>\<open>getBalancesAfterFeesTree\<close> itself throws on \<^verbatim>\<open>undefined\<close> and
  \<^verbatim>\<open>null\<close>. An empty mapping is accepted by both: \<^verbatim>\<open>toBNMap\<close> returns the
  empty mapping, and fee distribution returns the mapping whose only entry is
  \<^verbatim>\<open>validator\<close> with value zero.
\<close>

theorem raw_shape_check:
  "(toBNMap raw = Inl (AssertionError ''raw map is a valid object'') \<longleftrightarrow> (\<forall>ob. raw \<noteq> JObject ob))
   \<and> ((\<exists>res. toBNMap raw = Inr res) \<longleftrightarrow> (\<exists>ob. raw = JObject ob))
   \<and> toBNMap (JObject []) = Inr []
   \<and> (\<exists>e. getBalancesAfterFeesTree JUndefined ch = Inl e)
   \<and> (\<exists>e. getBalancesAfterFeesTree JNull ch = Inl e)
   \<and> (2 \<le> length (validators (spec ch)) \<longrightarrow>
        getBalancesAfterFeesTree (JObject []) ch = Inr [(''validator'', BN 0)])"
proof -
  have a: "toBNMap raw = Inl (AssertionError ''raw map is a valid object'') \<longleftrightarrow> (\<forall>ob. raw \<noteq> JObject ob)"
    by (cases raw) (simp_all add: toBNMap_def)
  have b: "(\<exists>res. toBNMap raw = Inr res) \<longleftrightarrow> (\<exists>ob. raw = JObject ob)"
    by (cases raw) (simp_all add: toBNMap_def)
  have c: "toBNMap (JObject []) = Inr []" by (simp add: toBNMap_def)
  show ?thesis
    using a b c gbaft_nullish [of JUndefined TypeError ch] gbaft_nullish [of JNull TypeError ch]
      gbaft_no_props [of ch "JObject []"]
    by simp
qed

theorem raw_shape_check_witness:
  "toBNMap (JNumber 5) = Inl (AssertionError ''raw map is a valid object'')
   \<and> toBNMap (JString ''abc'') = Inl (AssertionError ''raw map is a valid object'')
   \<and> toBNMap JNull = Inl (AssertionError ''raw map is a valid object'')
   \<and> toBNMap (JObject []) = Inr []
   \<and> 2 \<le> length (validators (spec exampleChannel))
   \<and> getBalancesAfterFeesTree (JObject []) exampleChannel = Inr [(''validator'', BN 0)]"
proof -
  have two: "2 \<le> length (validators (spec exampleChannel))" by (simp add: exampleChannel_def)
  show ?thesis
    using raw_shape_check [of "JNumber 5" exampleChannel]
      raw_shape_check [of "JString ''abc''" exampleChannel]
      raw_shape_check [of JNull exampleChannel] two
    by simp
qed

text \<open>Neither function fails on the empty mapping.\<close>

theorem empty_mapping_accepted_counterexample:
  "toBNMap (JObject []) = Inr []
   \<and> getBalancesAfterFeesTree (JObject []) exampleChannel = Inr [(''validator'', BN 0)]"
  by (simp add: eval_defs toBNMap_def)

section \<open>Properties: decimal strings and big integers\<close>

























section \<open>Properties: the state root\<close>

lemma bn_toString_2: "bn_toString 2 = ''2''"
  by code_simp

lemma bn_toString_3: "bn_toString 3 = ''3''"
  by code_simp

lemma bn_toString_4: "bn_toString 4 = ''4''"
  by code_simp

lemma run_root:
  "getStateRootHash exampleChannel [(''A'', BN 2), (''B'', BN 3)] exampleAdapter = ''6331e8''"
  by (simp add: getStateRootHash_def exampleAdapter_def exampleChannel_def keys_def get_prop_def
      Buffer_from_def toString_hex_def hexdigit_def bn_toString_2 bn_toString_3)

lemma run_root_changed:
  "getStateRootHash exampleChannel [(''A'', BN 2), (''B'', BN 4)] exampleAdapter = ''6331e9''"
  by (simp add: getStateRootHash_def exampleAdapter_def exampleChannel_def keys_def get_prop_def
      Buffer_from_def toString_hex_def hexdigit_def bn_toString_2 bn_toString_4)

text \<open>
  C4. \<^verbatim>\<open>isValidRootHash\<close> is true exactly when the claimed root is equal, as a
  string, to the root that \<^verbatim>\<open>getStateRootHash\<close> computes from the same channel,
  balances and adapter.
\<close>

theorem isValidRootHash_iff:
  "isValidRootHash leaderRootHash ch balancesAfterFees ad
     \<longleftrightarrow> leaderRootHash = getStateRootHash ch balancesAfterFees ad"
  by (auto simp: isValidRootHash_def)

theorem isValidRootHash_iff_witness:
  "isValidRootHash ''6331e8'' exampleChannel [(''A'', BN 2), (''B'', BN 3)] exampleAdapter
   \<and> \<not> isValidRootHash ''6331E8'' exampleChannel [(''A'', BN 2), (''B'', BN 3)] exampleAdapter
   \<and> \<not> isValidRootHash ''6331'' exampleChannel [(''A'', BN 2), (''B'', BN 3)] exampleAdapter
   \<and> \<not> isValidRootHash ''6331e8'' exampleChannel [(''A'', BN 2), (''B'', BN 4)] exampleAdapter"
  using isValidRootHash_iff [of "''6331e8''" exampleChannel "[(''A'', BN 2), (''B'', BN 3)]" exampleAdapter]
    isValidRootHash_iff [of "''6331E8''" exampleChannel "[(''A'', BN 2), (''B'', BN 3)]" exampleAdapter]
    isValidRootHash_iff [of "''6331''" exampleChannel "[(''A'', BN 2), (''B'', BN 3)]" exampleAdapter]
    isValidRootHash_iff [of "''6331e8''" exampleChannel "[(''A'', BN 2), (''B'', BN 4)]" exampleAdapter]
  by (simp add: run_root run_root_changed)





section \<open>Properties: the rejected state\<close>

text \<open>
  C6. The record that \<^verbatim>\<open>invalidNewState\<close> hands to \<^verbatim>\<open>persist\<close> has the
  type \<^verbatim>\<open>InvalidNewState\<close> whatever the type of \<^verbatim>\<open>newMsg\<close> was, carries the
  given reason, and agrees with \<^verbatim>\<open>newMsg\<close> on every other member. The record is read
  off by running the function with a \<^verbatim>\<open>persist\<close> that returns its message.
\<close>

theorem invalidNewState_record:
  assumes "wf_obj newMsg"
  shows "invalidNewState persist ch ad reason newMsg
           = persist ad ch (invalidNewState (\<lambda>a c m. m) ch ad reason newMsg)
       \<and> get_prop (invalidNewState (\<lambda>a c m. m) ch ad reason newMsg) ''type''
           = Some (FString ''InvalidNewState'')
       \<and> get_prop (invalidNewState (\<lambda>a c m. m) ch ad reason newMsg) ''reason'' = Some reason
       \<and> (\<forall>k. k \<noteq> ''type'' \<and> k \<noteq> ''reason'' \<longrightarrow>
            get_prop (invalidNewState (\<lambda>a c m. m) ch ad reason newMsg) k = get_prop newMsg k)"
  using assms by (simp add: invalidNewState_def get_prop_set_prop get_prop_spread)

theorem invalidNewState_record_witness:
  "wf_obj exampleNewState
   \<and> invalidNewState (\<lambda>a c m. m) exampleChannel exampleAdapter (FString ''InvalidRootHash'') exampleNewState
       = [(''type'', FString ''InvalidNewState''), (''stateRoot'', FString ''6331''),
          (''signature'', FString ''sig''), (''balances'', FBalances [(''A'', Str ''100'')]),
          (''reason'', FString ''InvalidRootHash'')]
   \<and> get_prop (invalidNewState (\<lambda>a c m. m) exampleChannel exampleAdapter (FString ''InvalidRootHash'') exampleNewState) ''stateRoot''
       = get_prop exampleNewState ''stateRoot''"
proof -
  have wf: "wf_obj exampleNewState" by (simp add: wf_obj_def exampleNewState_def)
  have r: "invalidNewState (\<lambda>a c m. m) exampleChannel exampleAdapter (FString ''InvalidRootHash'') exampleNewState
       = [(''type'', FString ''InvalidNewState''), (''stateRoot'', FString ''6331''),
          (''signature'', FString ''sig''), (''balances'', FBalances [(''A'', Str ''100'')]),
          (''reason'', FString ''InvalidRootHash'')]"
    by (simp add: invalidNewState_def exampleNewState_def spread_def)
  from invalidNewState_record [OF wf, of "\<lambda>a c m. m" exampleChannel exampleAdapter "FString ''InvalidRootHash''"]
  have "get_prop (invalidNewState (\<lambda>a c m. m) exampleChannel exampleAdapter (FString ''InvalidRootHash'') exampleNewState) ''stateRoot''
       = get_prop exampleNewState ''stateRoot''" by simp
  with wf r show ?thesis by blast
qed

section \<open>Properties: the last approved pair\<close>








section \<open>Properties: posting a batch\<close>

text \<open>
  C8. A batch posted by one of the channel's validators is stored in submission order, the
  message at position \<open>i\<close> with \<^verbatim>\<open>received\<close> equal to the start time plus
  \<open>i\<close>: within the batch the values are strictly increasing and pairwise different.
\<close>

theorem batch_received_increasing:
  assumes "find (\<lambda>v. vid v = uid) (validators (spec ch)) \<noteq> None"
  shows "\<exists>new. postValidatorMessages col startTime ch uid messages = (SendSuccess, col @ new)
       \<and> length new = length messages
       \<and> (\<forall>i < length messages.
             msg (new ! i) = messages ! i \<and> received (new ! i) = startTime + int i
             \<and> channelId (new ! i) = cid ch \<and> from' (new ! i) = uid)
       \<and> (\<forall>i j. i < j \<and> j < length messages \<longrightarrow> received (new ! i) < received (new ! j))
       \<and> distinct (map received new)"
proof -
  let ?new = "map (\<lambda>(idx, m). \<lparr>from' = uid, msg = m, received = startTime + int idx, channelId = cid ch\<rparr>)
                (enumerate 0 messages)"
  have p: "postValidatorMessages col startTime ch uid messages = (SendSuccess, col @ ?new)"
    using assms by (simp add: postValidatorMessages_def)
  have l: "length ?new = length messages" by simp
  have n: "?new ! i = \<lparr>from' = uid, msg = messages ! i, received = startTime + int i, channelId = cid ch\<rparr>"
    if "i < length messages" for i
    using that by (simp add: nth_enumerate_eq)
  have r: "map received ?new = map (\<lambda>i. startTime + int i) [0..<length messages]"
    by (rule nth_equalityI) (simp_all add: nth_enumerate_eq)
  have d: "distinct (map received ?new)"
    unfolding r by (simp add: distinct_map inj_on_def)
  from p l n d show ?thesis
    by (intro exI [of _ ?new]) simp
qed

theorem batch_received_increasing_witness:
  "find (\<lambda>v. vid v = ''L'') (validators (spec exampleChannel)) \<noteq> None
   \<and> postValidatorMessages [] 1000 exampleChannel ''L'' [exampleNewState, exampleApproveState]
       = (SendSuccess,
          [\<lparr>from' = ''L'', msg = exampleNewState, received = 1000, channelId = ''c1''\<rparr>,
           \<lparr>from' = ''L'', msg = exampleApproveState, received = 1001, channelId = ''c1''\<rparr>])
   \<and> distinct (map received (snd (postValidatorMessages [] 1000 exampleChannel ''L'' [exampleNewState, exampleApproveState])))"
proof -
  have a: "find (\<lambda>v. vid v = ''L'') (validators (spec exampleChannel)) \<noteq> None"
    by (simp add: exampleChannel_def)
  have r: "postValidatorMessages [] 1000 exampleChannel ''L'' [exampleNewState, exampleApproveState]
       = (SendSuccess,
          [\<lparr>from' = ''L'', msg = exampleNewState, received = 1000, channelId = ''c1''\<rparr>,
           \<lparr>from' = ''L'', msg = exampleApproveState, received = 1001, channelId = ''c1''\<rparr>])"
    by (simp add: postValidatorMessages_def exampleChannel_def)
  from batch_received_increasing [OF a, of "[]" 1000 "[exampleNewState, exampleApproveState]"]
  have "distinct (map received (snd (postValidatorMessages [] 1000 exampleChannel ''L'' [exampleNewState, exampleApproveState])))"
    by auto
  with a r show ?thesis by blast
qed

text \<open>Two batches for one channel, the second posted one millisecond after the first:
  two stored messages of the channel share the value 1001.\<close>

theorem received_not_unique_counterexample:
  "map channelId (snd (postValidatorMessages
      (snd (postValidatorMessages [] 1000 exampleChannel ''L'' [exampleNewState, exampleNewState]))
      1001 exampleChannel ''F'' [exampleApproveState])) = [''c1'', ''c1'', ''c1'']
   \<and> map received (snd (postValidatorMessages
      (snd (postValidatorMessages [] 1000 exampleChannel ''L'' [exampleNewState, exampleNewState]))
      1001 exampleChannel ''F'' [exampleApproveState])) = [1000, 1001, 1001]
   \<and> \<not> distinct (map received (snd (postValidatorMessages
      (snd (postValidatorMessages [] 1000 exampleChannel ''L'' [exampleNewState, exampleNewState]))
      1001 exampleChannel ''F'' [exampleApproveState])))"
  by (simp add: postValidatorMessages_def exampleChannel_def)

end
